theory Spec2Isabelle
  imports Complex_Main
begin

section \<open>NumPy scalars\<close>

text \<open>
  The notebook computes with NumPy \<open>float64\<close> values. A value is a finite number or one
  of the three special values that NumPy produces instead of raising: \<open>inf\<close>,
  \<open>-inf\<close> and \<open>nan\<close>. Finite values are kept as exact reals: rounding, overflow,
  underflow and the sign of zero are not represented, and nothing is stated below that
  they decide (whether a sum of weights is exactly 1, whether a product of a weight and
  an exponential is still positive and finite). The operations below follow
  IEEE 754 on the special values, as NumPy does (\<open>1/0 = inf\<close>, \<open>log 0 = -inf\<close>,
  \<open>inf * 0 = nan\<close>, \<open>exp (-inf) = 0\<close>, every comparison with \<open>nan\<close> is false).
\<close>

datatype np_float = Fin real | PInf | NInf | NaN

datatype error = ZeroDivisionError | IndexError | ValueError

fun fneg :: "np_float \<Rightarrow> np_float" where
  "fneg (Fin a) = Fin (- a)"
| "fneg PInf = NInf"
| "fneg NInf = PInf"
| "fneg NaN = NaN"

fun fadd :: "np_float \<Rightarrow> np_float \<Rightarrow> np_float" where
  "fadd (Fin a) (Fin b) = Fin (a + b)"
| "fadd NaN b = NaN"
| "fadd a NaN = NaN"
| "fadd PInf NInf = NaN"
| "fadd NInf PInf = NaN"
| "fadd PInf b = PInf"
| "fadd a PInf = PInf"
| "fadd NInf b = NInf"
| "fadd a NInf = NInf"

definition fsub :: "np_float \<Rightarrow> np_float \<Rightarrow> np_float" where
  "fsub a b = fadd a (fneg b)"

fun fmul :: "np_float \<Rightarrow> np_float \<Rightarrow> np_float" where
  "fmul (Fin a) (Fin b) = Fin (a * b)"
| "fmul NaN b = NaN"
| "fmul a NaN = NaN"
| "fmul PInf (Fin b) = (if 0 < b then PInf else if b < 0 then NInf else NaN)"
| "fmul NInf (Fin b) = (if 0 < b then NInf else if b < 0 then PInf else NaN)"
| "fmul (Fin a) PInf = (if 0 < a then PInf else if a < 0 then NInf else NaN)"
| "fmul (Fin a) NInf = (if 0 < a then NInf else if a < 0 then PInf else NaN)"
| "fmul PInf PInf = PInf"
| "fmul PInf NInf = NInf"
| "fmul NInf PInf = NInf"
| "fmul NInf NInf = PInf"

fun fdiv :: "np_float \<Rightarrow> np_float \<Rightarrow> np_float" where
  "fdiv (Fin a) (Fin b) =
     (if b \<noteq> 0 then Fin (a / b)
      else if 0 < a then PInf else if a < 0 then NInf else NaN)"
| "fdiv NaN b = NaN"
| "fdiv a NaN = NaN"
| "fdiv (Fin a) PInf = Fin 0"
| "fdiv (Fin a) NInf = Fin 0"
| "fdiv PInf (Fin b) = (if 0 \<le> b then PInf else NInf)"
| "fdiv NInf (Fin b) = (if 0 \<le> b then NInf else PInf)"
| "fdiv PInf b = NaN"
| "fdiv NInf b = NaN"

fun flog :: "np_float \<Rightarrow> np_float" where
  "flog (Fin a) = (if 0 < a then Fin (ln a) else if a = 0 then NInf else NaN)"
| "flog PInf = PInf"
| "flog NInf = NaN"
| "flog NaN = NaN"

fun fexp :: "np_float \<Rightarrow> np_float" where
  "fexp (Fin a) = Fin (exp a)"
| "fexp PInf = PInf"
| "fexp NInf = Fin 0"
| "fexp NaN = NaN"

fun fsign :: "np_float \<Rightarrow> np_float" where
  "fsign (Fin a) = Fin (sgn a)"
| "fsign PInf = Fin 1"
| "fsign NInf = Fin (- 1)"
| "fsign NaN = NaN"

fun fless :: "np_float \<Rightarrow> np_float \<Rightarrow> bool" where
  "fless (Fin a) (Fin b) = (a < b)"
| "fless NaN b = False"
| "fless a NaN = False"
| "fless a NInf = False"
| "fless PInf b = False"
| "fless NInf b = True"
| "fless a PInf = True"

fun feq :: "np_float \<Rightarrow> np_float \<Rightarrow> bool" where
  "feq (Fin a) (Fin b) = (a = b)"
| "feq PInf PInf = True"
| "feq NInf NInf = True"
| "feq a b = False"

definition float_of_bool :: "bool \<Rightarrow> np_float" where
  "float_of_bool b = Fin (if b then 1 else 0)"

definition float_of_int :: "int \<Rightarrow> np_float" where
  "float_of_int i = Fin (of_int i)"

text \<open>\<open>a.sum()\<close> of a float array; the sum of the empty array is \<open>0.0\<close>.\<close>

definition np_sum :: "np_float list \<Rightarrow> np_float" where
  "np_sum xs = foldr fadd xs (Fin 0)"

text \<open>
  \<open>np.average(a, weights=w, axis=0)\<close> for a boolean vector \<open>a\<close>: NumPy sums the
  weights, raises \<open>ZeroDivisionError\<close> when that sum compares equal to zero, and
  otherwise divides the sum of the products by it.
\<close>

definition np_average :: "bool list \<Rightarrow> np_float list \<Rightarrow> error + np_float" where
  "np_average a wgt =
     (let scl = np_sum wgt in
      if feq scl (Fin 0) then Inl ZeroDivisionError
      else Inr (fdiv (np_sum (map2 (\<lambda>b w. fmul (float_of_bool b) w) a wgt)) scl))"

section \<open>One boosting round\<close>

text \<open>
  \<open>Adaboost_scratch(X, y, M, learning_rate)\<close> of the notebook \<open>Boosting methods\<close>.

  The weak learner is \<open>sklearn\<close>'s decision stump, which is not part of the notebook.
  It enters as two parameters. \<open>fit X y sample_weight\<close> gives the fitted estimator, or
  the exception that fitting raises: the library validates its arguments, and its
  current versions raise \<open>ValueError\<close> on sample weights that are \<open>nan\<close> or
  infinite. \<open>predict estimator x\<close> gives the label of a fitted estimator for one row;
  \<open>estimator.predict(X)\<close> is the list of the labels of the rows of \<open>X\<close>. Both are
  functions of their arguments: a learner that fits differently on equal arguments is
  not represented. An exception of \<open>fit\<close> ends the round and the call.
  Labels are integers. \<open>X\<close> is the list of its rows; the library rejects an \<open>X\<close> whose
  number of rows differs from the number of labels, and the results below that depend
  on it assume \<open>length X = length y\<close>. The learning rate is a finite number.

  The record holds the local variables of the function that the rounds read or write.
\<close>

record 'e boost_state =
  sample_weight :: "np_float list"
  estimator_list :: "'e list"
  y_predict_list :: "int list list"
  estimator_error_list :: "np_float list"
  estimator_weight_list :: "np_float list"
  sample_weight_list :: "np_float list list"

text \<open>\<open>incorrect = (y_predict != y)\<close>\<close>

definition incorrect_of :: "int list \<Rightarrow> int list \<Rightarrow> bool list" where
  "incorrect_of y_predict y = map2 (\<lambda>p l. p \<noteq> l) y_predict y"

text \<open>\<open>estimator_weight = learning_rate * np.log((1. - estimator_error)/estimator_error)\<close>\<close>

definition estimator_weight_of :: "real \<Rightarrow> np_float \<Rightarrow> np_float" where
  "estimator_weight_of learning_rate estimator_error =
     fmul (Fin learning_rate) (flog (fdiv (fsub (Fin 1) estimator_error) estimator_error))"

text \<open>
  \<open>sample_weight *= np.exp(estimator_weight * incorrect *
     ((sample_weight>0) | (estimator_weight<0)))\<close>
\<close>

definition boost_factor :: "np_float \<Rightarrow> bool \<Rightarrow> np_float \<Rightarrow> np_float" where
  "boost_factor estimator_weight inc w =
     fexp (fmul (fmul estimator_weight (float_of_bool inc))
                (float_of_bool (fless (Fin 0) w \<or> fless estimator_weight (Fin 0))))"

definition boost_sample_weight :: "np_float \<Rightarrow> bool list \<Rightarrow> np_float list \<Rightarrow> np_float list" where
  "boost_sample_weight estimator_weight incorrect ws =
     map2 (\<lambda>w inc. fmul w (boost_factor estimator_weight inc w)) ws incorrect"

definition boost_round ::
  "('x list \<Rightarrow> int list \<Rightarrow> np_float list \<Rightarrow> error + 'e) \<Rightarrow> ('e \<Rightarrow> 'x \<Rightarrow> int) \<Rightarrow>
   'x list \<Rightarrow> int list \<Rightarrow> real \<Rightarrow> 'e boost_state \<Rightarrow> error + 'e boost_state" where
  "boost_round fit predict X y learning_rate s =
     (case fit X y (sample_weight s) of
        Inl err \<Rightarrow> Inl err
      | Inr estimator \<Rightarrow>
          (let y_predict = map (predict estimator) X;
               incorrect = incorrect_of y_predict y
           in case np_average incorrect (sample_weight s) of
                Inl err \<Rightarrow> Inl err
              | Inr estimator_error \<Rightarrow>
                  (let estimator_weight = estimator_weight_of learning_rate estimator_error;
                       sample_weight' =
                         boost_sample_weight estimator_weight incorrect (sample_weight s)
                   in Inr \<lparr> sample_weight = sample_weight',
                            estimator_list = estimator_list s @ [estimator],
                            y_predict_list = y_predict_list s @ [y_predict],
                            estimator_error_list = estimator_error_list s @ [estimator_error],
                            estimator_weight_list = estimator_weight_list s @ [estimator_weight],
                            sample_weight_list = sample_weight_list s @ [sample_weight'] \<rparr>)))"

text \<open>\<open>for m in range(M)\<close>: the rounds in sequence; an exception ends the run.\<close>

fun boost_rounds ::
  "('x list \<Rightarrow> int list \<Rightarrow> np_float list \<Rightarrow> error + 'e) \<Rightarrow> ('e \<Rightarrow> 'x \<Rightarrow> int) \<Rightarrow>
   'x list \<Rightarrow> int list \<Rightarrow> real \<Rightarrow> nat \<Rightarrow> 'e boost_state \<Rightarrow> error + 'e boost_state" where
  "boost_rounds fit predict X y learning_rate 0 s = Inr s"
| "boost_rounds fit predict X y learning_rate (Suc m) s =
     (case boost_round fit predict X y learning_rate s of
        Inl err \<Rightarrow> Inl err
      | Inr s' \<Rightarrow> boost_rounds fit predict X y learning_rate m s')"

text \<open>The state before the first round: uniform weights \<open>np.ones(N) / N\<close>, one snapshot.\<close>

definition initial_sample_weight :: "nat \<Rightarrow> np_float list" where
  "initial_sample_weight N = replicate N (fdiv (Fin 1) (Fin (real N)))"

definition initial_state :: "nat \<Rightarrow> 'e boost_state" where
  "initial_state N =
     \<lparr> sample_weight = initial_sample_weight N,
       estimator_list = [],
       y_predict_list = [],
       estimator_error_list = [],
       estimator_weight_list = [],
       sample_weight_list = [initial_sample_weight N] \<rparr>"

section \<open>The vote and the call\<close>

text \<open>
  \<open>y_predict_list = np.asarray(y_predict_list)\<close> stacks the per-round prediction
  vectors. With at least one round the array is two-dimensional and
  \<open>y_predict_list[:,point]\<close> is its column; with no round it is the empty
  one-dimensional array, and indexing it with two indices raises \<open>IndexError\<close>, as
  does a column index past the end of the rows.
\<close>

definition column :: "int list list \<Rightarrow> nat \<Rightarrow> error + int list" where
  "column rows point =
     (if rows = [] then Inl IndexError
      else if \<exists>r \<in> set rows. length r \<le> point then Inl IndexError
      else Inr (map (\<lambda>r. r ! point) rows))"

text \<open>\<open>np.sign((y_predict_list[:,point] * estimator_weight_list).sum())\<close>\<close>

definition vote :: "int list list \<Rightarrow> np_float list \<Rightarrow> nat \<Rightarrow> error + np_float" where
  "vote rows weights point =
     (case column rows point of
        Inl err \<Rightarrow> Inl err
      | Inr col \<Rightarrow> Inr (fsign (np_sum (map2 (\<lambda>p a. fmul (float_of_int p) a) col weights))))"

text \<open>A list comprehension whose elements may raise: the first exception ends it.\<close>

fun collect :: "(error + 'a) list \<Rightarrow> error + 'a list" where
  "collect [] = Inr []"
| "collect (x # xs) =
     (case x of
        Inl err \<Rightarrow> Inl err
      | Inr v \<Rightarrow> (case collect xs of Inl err \<Rightarrow> Inl err | Inr vs \<Rightarrow> Inr (v # vs)))"

definition ensemble_preds :: "int list list \<Rightarrow> np_float list \<Rightarrow> nat \<Rightarrow> error + np_float list" where
  "ensemble_preds rows weights N = collect (map (vote rows weights) [0..<N])"

text \<open>\<open>(preds == y).sum() / N\<close>\<close>

definition accuracy :: "np_float list \<Rightarrow> int list \<Rightarrow> nat \<Rightarrow> np_float" where
  "accuracy ps y N =
     fdiv (Fin (real (length (filter (\<lambda>(p, l). feq p (float_of_int l)) (zip ps y)))))
          (Fin (real N))"

text \<open>
  The objects a call hands back. \<open>returned\<close> is the tuple after \<open>return\<close>, one entry
  per component, each array given by its elements; \<open>printed_accuracy\<close> is the number
  written to standard output after \<open>Accuracy = \<close>; \<open>preds\<close> is the local vector of
  combined votes the accuracy is computed from.
\<close>

datatype 'e py_object =
    Estimator_array "'e list"
  | Float_array "np_float list"
  | Float_matrix "np_float list list"
  | Float_scalar np_float

record 'e call_result =
  returned :: "'e py_object list"
  printed_accuracy :: np_float
  preds :: "np_float list"

definition Adaboost_scratch ::
  "('x list \<Rightarrow> int list \<Rightarrow> np_float list \<Rightarrow> error + 'e) \<Rightarrow> ('e \<Rightarrow> 'x \<Rightarrow> int) \<Rightarrow>
   'x list \<Rightarrow> int list \<Rightarrow> nat \<Rightarrow> real \<Rightarrow> error + 'e call_result" where
  "Adaboost_scratch fit predict X y M learning_rate =
     (let N = length y in
      case boost_rounds fit predict X y learning_rate M (initial_state N) of
        Inl err \<Rightarrow> Inl err
      | Inr s \<Rightarrow>
          (case ensemble_preds (y_predict_list s) (estimator_weight_list s) N of
             Inl err \<Rightarrow> Inl err
           | Inr ps \<Rightarrow>
               Inr \<lparr> returned = [Estimator_array (estimator_list s),
                                  Float_array (estimator_weight_list s),
                                  Float_matrix (sample_weight_list s)],
                        printed_accuracy = accuracy ps y N,
                        preds = ps \<rparr>))"

section \<open>The specification's formula for the vote\<close>

text \<open>
  The confidence-weighted sum of the learners' votes for one row, as the specification
  writes it: the sum over the rounds of \<open>confidence_weight * learner.predict(point)\<close>.
  The notebook's own computation is \<open>vote\<close> above; the two are compared below.
\<close>

definition weighted_vote ::
  "('e \<Rightarrow> 'x \<Rightarrow> int) \<Rightarrow> 'e list \<Rightarrow> np_float list \<Rightarrow> 'x \<Rightarrow> np_float" where
  "weighted_vote predict estimators weights x =
     np_sum (map2 (\<lambda>e a. fmul (float_of_int (predict e x)) a) estimators weights)"

section \<open>Auxiliary notions for the proofs\<close>

text \<open>The real number in a finite value, and the finite, non-negative and positive values.\<close>

fun the_real :: "np_float \<Rightarrow> real" where
  "the_real (Fin a) = a"
| "the_real PInf = 0"
| "the_real NInf = 0"
| "the_real NaN = 0"

fun is_fin :: "np_float \<Rightarrow> bool" where
  "is_fin (Fin a) = True"
| "is_fin PInf = False"
| "is_fin NInf = False"
| "is_fin NaN = False"

fun nonneg_fin :: "np_float \<Rightarrow> bool" where
  "nonneg_fin (Fin a) = (0 \<le> a)"
| "nonneg_fin PInf = False"
| "nonneg_fin NInf = False"
| "nonneg_fin NaN = False"


text \<open>The weighted sum of the misclassification indicators, as a real number.\<close>

definition wsum :: "bool list \<Rightarrow> np_float list \<Rightarrow> real" where
  "wsum inc ws = sum_list (map2 (\<lambda>b w. if b then the_real w else 0) inc ws)"

text \<open>
  Round \<open>m\<close> as the lists of a state record it: the estimator fitted on snapshot \<open>m\<close>,
  its predictions, its weighted error, the confidence weight computed from the error,
  and snapshot \<open>m + 1\<close> as the update of snapshot \<open>m\<close>.
\<close>

definition round_ok ::
  "('x list \<Rightarrow> int list \<Rightarrow> np_float list \<Rightarrow> error + 'e) \<Rightarrow> ('e \<Rightarrow> 'x \<Rightarrow> int) \<Rightarrow>
   'x list \<Rightarrow> int list \<Rightarrow> real \<Rightarrow> 'e boost_state \<Rightarrow> nat \<Rightarrow> bool" where
  "round_ok fit predict X y lr s m \<longleftrightarrow>
     fit X y (sample_weight_list s ! m) = Inr (estimator_list s ! m) \<and>
     y_predict_list s ! m = map (predict (estimator_list s ! m)) X \<and>
     np_average (incorrect_of (y_predict_list s ! m) y) (sample_weight_list s ! m)
       = Inr (estimator_error_list s ! m) \<and>
     estimator_weight_list s ! m = estimator_weight_of lr (estimator_error_list s ! m) \<and>
     sample_weight_list s ! Suc m =
       boost_sample_weight (estimator_weight_list s ! m)
         (incorrect_of (y_predict_list s ! m) y) (sample_weight_list s ! m)"

text \<open>
  A state whose lists are consistent: one entry per completed round, one snapshot more,
  the current weights as the last snapshot, every round recorded as \<open>round_ok\<close> says.
\<close>

definition trace_ok ::
  "('x list \<Rightarrow> int list \<Rightarrow> np_float list \<Rightarrow> error + 'e) \<Rightarrow> ('e \<Rightarrow> 'x \<Rightarrow> int) \<Rightarrow>
   'x list \<Rightarrow> int list \<Rightarrow> real \<Rightarrow> 'e boost_state \<Rightarrow> bool" where
  "trace_ok fit predict X y lr s \<longleftrightarrow>
     length (y_predict_list s) = length (estimator_list s) \<and>
     length (estimator_error_list s) = length (estimator_list s) \<and>
     length (estimator_weight_list s) = length (estimator_list s) \<and>
     length (sample_weight_list s) = Suc (length (estimator_list s)) \<and>
     sample_weight_list s ! length (estimator_list s) = sample_weight s \<and>
     (\<forall>m < length (estimator_list s). round_ok fit predict X y lr s m)"




section \<open>A learner and runs for concrete inputs\<close>

text \<open>
  A fixed weak learner: fitting keeps nothing and never raises, and the label predicted
  for a row is the row itself (rows are single integers).
\<close>

definition fit_none :: "int list \<Rightarrow> int list \<Rightarrow> np_float list \<Rightarrow> error + unit" where
  "fit_none X y w = Inr ()"

text \<open>
  The same learner with the library's validation of the sample weights: fitting raises
  \<open>ValueError\<close> when a sample weight is \<open>nan\<close> or infinite.
\<close>

definition fit_checked :: "int list \<Rightarrow> int list \<Rightarrow> np_float list \<Rightarrow> error + unit" where
  "fit_checked X y w = (if list_all is_fin w then Inr () else Inl ValueError)"

definition predict_feature :: "unit \<Rightarrow> int \<Rightarrow> int" where
  "predict_feature e x = x"

text \<open>
  The state after one round at learning rate 1 on four examples labelled 1 of which the
  learner gets the first wrong: error rate \<open>1/4\<close>, confidence weight \<open>ln 3\<close>.
\<close>

definition regular_run :: "unit boost_state" where
  "regular_run =
     \<lparr> sample_weight = [Fin (3 / 4), Fin (1 / 4), Fin (1 / 4), Fin (1 / 4)],
       estimator_list = [()],
       y_predict_list = [[- 1, 1, 1, 1]],
       estimator_error_list = [Fin (1 / 4)],
       estimator_weight_list = [Fin (ln 3)],
       sample_weight_list =
         [[Fin (1 / 4), Fin (1 / 4), Fin (1 / 4), Fin (1 / 4)],
          [Fin (3 / 4), Fin (1 / 4), Fin (1 / 4), Fin (1 / 4)]] \<rparr>"

text \<open>
  What the call with one round returns and prints on the four examples of
  \<open>regular_run\<close>.
\<close>

definition regular_call :: "unit call_result" where
  "regular_call =
     \<lparr> returned =
         [Estimator_array [()], Float_array [Fin (ln 3)],
          Float_matrix
            [[Fin (1 / 4), Fin (1 / 4), Fin (1 / 4), Fin (1 / 4)],
             [Fin (3 / 4), Fin (1 / 4), Fin (1 / 4), Fin (1 / 4)]]],
       printed_accuracy = Fin (3 / 4),
       preds = [Fin (- 1), Fin 1, Fin 1, Fin 1] \<rparr>"

text \<open>
  The state after one round at learning rate 1 on two examples that the learner
  classifies correctly: error rate 0.
\<close>

definition perfect_run :: "unit boost_state" where
  "perfect_run =
     \<lparr> sample_weight = [NaN, NaN],
       estimator_list = [()],
       y_predict_list = [[1, - 1]],
       estimator_error_list = [Fin 0],
       estimator_weight_list = [PInf],
       sample_weight_list = [[Fin (1 / 2), Fin (1 / 2)], [NaN, NaN]] \<rparr>"

text \<open>
  What the call with one round returns and prints on the two examples of
  \<open>perfect_run\<close>, and the state after a second round when the learner accepts \<open>nan\<close>
  weights.
\<close>

definition perfect_call :: "unit call_result" where
  "perfect_call =
     \<lparr> returned =
         [Estimator_array [()], Float_array [PInf],
          Float_matrix [[Fin (1 / 2), Fin (1 / 2)], [NaN, NaN]]],
       printed_accuracy = Fin 1,
       preds = [Fin 1, Fin (- 1)] \<rparr>"


section \<open>Basic facts about sums and averages\<close>

lemma np_sum_Nil: "np_sum [] = Fin 0"
  by (simp add: np_sum_def)

lemma np_sum_Cons: "np_sum (x # xs) = fadd x (np_sum xs)"
  by (simp add: np_sum_def)

lemma nonneg_fin_iff: "nonneg_fin w \<longleftrightarrow> (\<exists>a. w = Fin a \<and> 0 \<le> a)"
  by (cases w) auto


lemma is_fin_iff: "is_fin w \<longleftrightarrow> (\<exists>a. w = Fin a)"
  by (cases w) auto


lemma nonneg_fin_is_fin: "nonneg_fin w \<Longrightarrow> is_fin w"
  by (cases w) auto

lemma np_sum_fin: "list_all is_fin ws \<Longrightarrow> np_sum ws = Fin (sum_list (map the_real ws))"
  by (induction ws) (auto simp: np_sum_Nil np_sum_Cons is_fin_iff)

lemma sum_nonneg_fin:
  "list_all nonneg_fin ws \<Longrightarrow> 0 \<le> sum_list (map the_real ws)"
  by (induction ws) (auto simp: nonneg_fin_iff)

lemma wsum_simps:
  "wsum [] ws = 0" "wsum inc [] = 0"
  "wsum (b # inc) (w # ws) = (if b then the_real w else 0) + wsum inc ws"
  by (simp_all add: wsum_def)

lemma np_sum_weighted:
  "list_all is_fin ws \<Longrightarrow>
   np_sum (map2 (\<lambda>b w. fmul (float_of_bool b) w) inc ws) = Fin (wsum inc ws)"
proof (induction ws arbitrary: inc)
  case Nil
  then show ?case by (simp add: np_sum_Nil wsum_simps)
next
  case (Cons w ws)
  show ?case
  proof (cases inc)
    case Nil
    then show ?thesis by (simp add: np_sum_Nil wsum_simps)
  next
    case (Cons b bs)
    with Cons.prems Cons.IH [of bs] show ?thesis
      by (auto simp: np_sum_Cons wsum_simps is_fin_iff float_of_bool_def)
  qed
qed

lemma wsum_bounds:
  "list_all nonneg_fin ws \<Longrightarrow> 0 \<le> wsum inc ws \<and> wsum inc ws \<le> sum_list (map the_real ws)"
proof (induction ws arbitrary: inc)
  case Nil
  then show ?case by (simp add: wsum_simps)
next
  case (Cons w ws)
  show ?case
  proof (cases inc)
    case Nil
    with Cons.prems show ?thesis using sum_nonneg_fin [of "w # ws"] by (simp add: wsum_simps)
  next
    case (Cons b bs)
    with Cons.prems Cons.IH [of bs] show ?thesis
      by (auto simp: wsum_simps nonneg_fin_iff)
  qed
qed

lemma list_all_nonneg_is_fin: "list_all nonneg_fin ws \<Longrightarrow> list_all is_fin ws"
  by (induction ws) (auto simp: nonneg_fin_is_fin)

lemma np_average_nonneg:
  assumes "list_all nonneg_fin ws" and "fless (Fin 0) (np_sum ws)"
  shows "np_average inc ws = Inr (Fin (wsum inc ws / sum_list (map the_real ws))) \<and>
         0 \<le> wsum inc ws / sum_list (map the_real ws) \<and>
         wsum inc ws / sum_list (map the_real ws) \<le> 1 \<and>
         0 < sum_list (map the_real ws)"
proof -
  have fin: "list_all is_fin ws" using assms(1) by (rule list_all_nonneg_is_fin)
  have s: "np_sum ws = Fin (sum_list (map the_real ws))" using fin by (rule np_sum_fin)
  with assms(2) have pos: "0 < sum_list (map the_real ws)" by simp
  from wsum_bounds [OF assms(1), of inc]
  have b: "0 \<le> wsum inc ws" "wsum inc ws \<le> sum_list (map the_real ws)" by simp_all
  have "np_average inc ws = Inr (Fin (wsum inc ws / sum_list (map the_real ws)))"
    using pos by (simp add: np_average_def s np_sum_weighted [OF fin])
  moreover have "0 \<le> wsum inc ws / sum_list (map the_real ws)" using b pos by simp
  moreover have "wsum inc ws / sum_list (map the_real ws) \<le> 1" using b pos by simp
  ultimately show ?thesis using pos by simp
qed

lemma estimator_weight_of_open:
  assumes "0 < e" "e < 1"
  shows "estimator_weight_of lr (Fin e) = Fin (lr * ln ((1 - e) / e))"
  using assms by (simp add: estimator_weight_of_def fsub_def)

lemma ln_ratio_pos: "0 < (e::real) \<Longrightarrow> e < 1/2 \<Longrightarrow> 0 < ln ((1 - e) / e)"
  by (simp add: ln_gt_zero)

lemma ln_ratio_neg: "(e::real) < 1 \<Longrightarrow> 1/2 < e \<Longrightarrow> ln ((1 - e) / e) < 0"
  by (simp add: ln_less_zero)

section \<open>The trace of a run\<close>

lemma boost_round_InrE:
  assumes "boost_round fit predict X y lr s = Inr s'"
  obtains est err where
    "fit X y (sample_weight s) = Inr est"
    "np_average (incorrect_of (map (predict est) X) y) (sample_weight s) = Inr err"
    "s' = \<lparr> sample_weight = boost_sample_weight (estimator_weight_of lr err)
               (incorrect_of (map (predict est) X) y) (sample_weight s),
            estimator_list = estimator_list s @ [est],
            y_predict_list = y_predict_list s @ [map (predict est) X],
            estimator_error_list = estimator_error_list s @ [err],
            estimator_weight_list = estimator_weight_list s @ [estimator_weight_of lr err],
            sample_weight_list = sample_weight_list s @
              [boost_sample_weight (estimator_weight_of lr err)
               (incorrect_of (map (predict est) X) y) (sample_weight s)] \<rparr>"
  using assms by (auto simp: boost_round_def Let_def split: sum.splits)

lemma boost_rounds_invariant:
  assumes "boost_rounds fit predict X y lr m s = Inr s'"
    and "P s"
    and "\<And>t t'. P t \<Longrightarrow> boost_round fit predict X y lr t = Inr t' \<Longrightarrow> P t'"
  shows "P s'"
  using assms(1,2)
proof (induction m arbitrary: s)
  case 0
  then show ?case by simp
next
  case (Suc m)
  then show ?case using assms(3) by (auto split: sum.splits)
qed

lemma trace_ok_initial: "trace_ok fit predict X y lr (initial_state N)"
  by (simp add: trace_ok_def initial_state_def)

lemma trace_ok_round:
  assumes "trace_ok fit predict X y lr s" and "boost_round fit predict X y lr s = Inr s'"
  shows "trace_ok fit predict X y lr s'"
proof -
  let ?k = "length (estimator_list s)"
  from assms(2) obtain est err where
    fit: "fit X y (sample_weight s) = Inr est"
    and avg: "np_average (incorrect_of (map (predict est) X) y) (sample_weight s) = Inr err"
    and s': "s' = \<lparr> sample_weight = boost_sample_weight (estimator_weight_of lr err)
               (incorrect_of (map (predict est) X) y) (sample_weight s),
            estimator_list = estimator_list s @ [est],
            y_predict_list = y_predict_list s @ [map (predict est) X],
            estimator_error_list = estimator_error_list s @ [err],
            estimator_weight_list = estimator_weight_list s @ [estimator_weight_of lr err],
            sample_weight_list = sample_weight_list s @
              [boost_sample_weight (estimator_weight_of lr err)
               (incorrect_of (map (predict est) X) y) (sample_weight s)] \<rparr>"
    by (rule boost_round_InrE)
  from assms(1) have len:
    "length (y_predict_list s) = ?k" "length (estimator_error_list s) = ?k"
    "length (estimator_weight_list s) = ?k" "length (sample_weight_list s) = Suc ?k"
    and cur: "sample_weight_list s ! ?k = sample_weight s"
    and old: "\<And>m. m < ?k \<Longrightarrow> round_ok fit predict X y lr s m"
    by (simp_all add: trace_ok_def)
  have keep: "round_ok fit predict X y lr s' m" if "m < ?k" for m
  proof -
    have "round_ok fit predict X y lr s' m = round_ok fit predict X y lr s m"
      using that len by (simp add: round_ok_def s' nth_append)
    with old [OF that] show ?thesis by simp
  qed
  have new: "round_ok fit predict X y lr s' ?k"
    using len cur fit avg by (simp add: round_ok_def s' nth_append)
  have all: "\<forall>m < Suc ?k. round_ok fit predict X y lr s' m"
    using keep new by (auto simp: less_Suc_eq)
  have k': "length (estimator_list s') = Suc ?k" by (simp add: s')
  show ?thesis
    unfolding trace_ok_def k' using all len by (simp add: s' nth_append)
qed

lemma trace_ok_rounds:
  assumes "boost_rounds fit predict X y lr m (initial_state N) = Inr s"
  shows "trace_ok fit predict X y lr s"
  using assms trace_ok_initial trace_ok_round
  by (rule boost_rounds_invariant [where P = "trace_ok fit predict X y lr"])

lemma boost_round_length:
  "boost_round fit predict X y lr s = Inr s' \<Longrightarrow>
   length (estimator_list s') = Suc (length (estimator_list s)) \<and>
   sample_weight_list s' ! 0 = (sample_weight_list s @ [sample_weight s']) ! 0"
  by (erule boost_round_InrE) simp

lemma boost_rounds_length:
  "boost_rounds fit predict X y lr m s = Inr s' \<Longrightarrow>
   length (estimator_list s') = length (estimator_list s) + m"
proof (induction m arbitrary: s)
  case 0
  then show ?case by simp
next
  case (Suc m)
  then show ?case by (auto split: sum.splits dest!: boost_round_length)
qed

lemma rounds_count:
  assumes "boost_rounds fit predict X y lr m (initial_state N) = Inr s"
  shows "length (estimator_list s) = m"
  using boost_rounds_length [OF assms] by (simp add: initial_state_def)


lemma boost_round_returns_iff:
  "(\<exists>t'. boost_round fit predict X y lr t = Inr t') \<longleftrightarrow>
   (\<exists>est. fit X y (sample_weight t) = Inr est) \<and> \<not> feq (np_sum (sample_weight t)) (Fin 0)"
  by (auto simp: boost_round_def np_average_def Let_def split: sum.splits)



section \<open>Classes of weight vectors\<close>



lemma fadd_NaN_right: "fadd w NaN = NaN"
  by (cases w) auto























section \<open>Snapshots of a run\<close>

lemma length_incorrect_of: "length (incorrect_of p y) = min (length p) (length y)"
  by (simp add: incorrect_of_def)

lemma length_boost_sample_weight:
  "length (boost_sample_weight A inc ws) = min (length ws) (length inc)"
  by (simp add: boost_sample_weight_def)

lemma nth_incorrect_of:
  "i < length X \<Longrightarrow> i < length y \<Longrightarrow>
   incorrect_of (map p X) y ! i = (p (X ! i) \<noteq> y ! i)"
  by (simp add: incorrect_of_def)

lemma nth_boost_sample_weight:
  "i < length ws \<Longrightarrow> i < length inc \<Longrightarrow>
   boost_sample_weight A inc ws ! i = fmul (ws ! i) (boost_factor A (inc ! i) (ws ! i))"
  by (simp add: boost_sample_weight_def)


lemma length_initial_sample_weight: "length (initial_sample_weight N) = N"
  by (simp add: initial_sample_weight_def)

text \<open>Every snapshot of a run: entries of the trace by index.\<close>

lemma run_facts:
  assumes "boost_rounds fit predict X y lr M (initial_state N) = Inr s"
  shows "length (estimator_list s) = M \<and> length (y_predict_list s) = M \<and>
         length (estimator_error_list s) = M \<and> length (estimator_weight_list s) = M \<and>
         length (sample_weight_list s) = Suc M \<and>
         sample_weight_list s ! M = sample_weight s \<and>
         (\<forall>m < M. round_ok fit predict X y lr s m)"
  using trace_ok_rounds [OF assms] rounds_count [OF assms] by (simp add: trace_ok_def)

lemma first_snapshot_round:
  "boost_round fit predict X y lr s = Inr s' \<Longrightarrow> sample_weight_list s \<noteq> [] \<Longrightarrow>
   sample_weight_list s' \<noteq> [] \<and> sample_weight_list s' ! 0 = sample_weight_list s ! 0"
  by (erule boost_round_InrE) (simp add: nth_append)

lemma first_snapshot:
  assumes "boost_rounds fit predict X y lr M (initial_state N) = Inr s"
  shows "sample_weight_list s ! 0 = initial_sample_weight N"
proof -
  have "sample_weight_list s \<noteq> [] \<and> sample_weight_list s ! 0 = initial_sample_weight N"
    by (rule boost_rounds_invariant [OF assms])
       (auto simp: initial_state_def dest: first_snapshot_round)
  then show ?thesis by simp
qed

lemma snapshot_lengths:
  assumes len: "length X = length y"
    and run: "boost_rounds fit predict X y lr M (initial_state (length y)) = Inr s"
  shows "\<forall>k \<le> M. length (sample_weight_list s ! k) = length y"
proof -
  from run_facts [OF run] have
    ok: "\<And>m. m < M \<Longrightarrow> round_ok fit predict X y lr s m" and lp: "length (y_predict_list s) = M"
    by simp_all
  have "length (sample_weight_list s ! k) = length y" if "k \<le> M" for k
    using that
  proof (induction k)
    case 0
    then show ?case by (simp add: first_snapshot [OF run] length_initial_sample_weight)
  next
    case (Suc k)
    then have k: "k < M" and ih: "length (sample_weight_list s ! k) = length y" by simp_all
    from ok [OF k] have
      "sample_weight_list s ! Suc k = boost_sample_weight (estimator_weight_list s ! k)
          (incorrect_of (y_predict_list s ! k) y) (sample_weight_list s ! k)"
      and "y_predict_list s ! k = map (predict (estimator_list s ! k)) X"
      by (simp_all add: round_ok_def)
    then show ?case
      by (simp add: length_boost_sample_weight length_incorrect_of ih len)
  qed
  then show ?thesis by blast
qed

lemma round_okD:
  assumes "round_ok fit predict X y lr s m"
  shows "fit X y (sample_weight_list s ! m) = Inr (estimator_list s ! m)"
    and "y_predict_list s ! m = map (predict (estimator_list s ! m)) X"
    and "np_average (incorrect_of (y_predict_list s ! m) y) (sample_weight_list s ! m)
          = Inr (estimator_error_list s ! m)"
    and "estimator_weight_list s ! m = estimator_weight_of lr (estimator_error_list s ! m)"
    and "sample_weight_list s ! Suc m =
          boost_sample_weight (estimator_weight_list s ! m)
            (incorrect_of (y_predict_list s ! m) y) (sample_weight_list s ! m)"
  using assms unfolding round_ok_def by blast+


section \<open>The vote\<close>

lemma collect_map_Inr:
  "(\<And>x. x \<in> set xs \<Longrightarrow> f x = Inr (g x)) \<Longrightarrow> collect (map f xs) = Inr (map g xs)"
  by (induction xs) simp_all

lemma collect_map_InrD:
  "collect (map f xs) = Inr vs \<Longrightarrow>
   length vs = length xs \<and> (\<forall>i < length xs. f (xs ! i) = Inr (vs ! i))"
proof (induction xs arbitrary: vs)
  case Nil
  then show ?case by simp
next
  case (Cons x xs)
  from Cons.prems obtain v vs' where
    fx: "f x = Inr v" and c: "collect (map f xs) = Inr vs'" and vs: "vs = v # vs'"
    by (auto split: sum.splits)
  from Cons.IH [OF c] fx show ?case
    unfolding vs by (auto simp: nth_Cons split: nat.splits)
qed

lemma prediction_rows:
  assumes run: "boost_rounds fit predict X y lr M (initial_state N) = Inr s"
  shows "y_predict_list s = map (\<lambda>e. map (predict e) X) (estimator_list s)"
proof (rule nth_equalityI)
  show "length (y_predict_list s) = length (map (\<lambda>e. map (predict e) X) (estimator_list s))"
    using run_facts [OF run] by simp
next
  fix m assume "m < length (y_predict_list s)"
  then have m: "m < M" using run_facts [OF run] by simp
  with run_facts [OF run] have ok: "round_ok fit predict X y lr s m" by simp
  from round_okD(2) [OF ok] m run_facts [OF run]
  show "y_predict_list s ! m = map (\<lambda>e. map (predict e) X) (estimator_list s) ! m" by simp
qed

lemma column_of_predictions:
  assumes "i < length X" and "es \<noteq> []"
  shows "column (map (\<lambda>e. map (predict e) X) es) i = Inr (map (\<lambda>e. predict e (X ! i)) es)"
  using assms by (auto simp: column_def)

lemma column_empty: "column [] i = Inl IndexError"
  by (simp add: column_def)

lemma vote_of_predictions:
  assumes "i < length X" and "es \<noteq> []"
  shows "vote (map (\<lambda>e. map (predict e) X) es) ws i =
           Inr (fsign (weighted_vote predict es ws (X ! i)))"
  using column_of_predictions [OF assms, of predict]
  by (simp add: vote_def weighted_vote_def zip_map1 split_def comp_def)

lemma ensemble_preds_empty: "0 < N \<Longrightarrow> ensemble_preds [] ws N = Inl IndexError"
  by (simp add: ensemble_preds_def upt_conv_Cons vote_def column_empty)

lemma Adaboost_scratch_InrD:
  assumes "Adaboost_scratch fit predict X y M lr = Inr r"
  obtains s where "boost_rounds fit predict X y lr M (initial_state (length y)) = Inr s"
    and "ensemble_preds (y_predict_list s) (estimator_weight_list s) (length y) = Inr (preds r)"
    and "returned r = [Estimator_array (estimator_list s), Float_array (estimator_weight_list s),
                       Float_matrix (sample_weight_list s)]"
    and "printed_accuracy r = accuracy (preds r) y (length y)"
  using assms by (auto simp: Adaboost_scratch_def Let_def split: sum.splits)

lemma ensemble_preds_returns:
  assumes run: "boost_rounds fit predict X y lr M (initial_state N) = Inr s"
    and M: "0 < M" and len: "N \<le> length X"
  shows "\<exists>ps. ensemble_preds (y_predict_list s) (estimator_weight_list s) N = Inr ps"
proof -
  from run_facts [OF run] M have ne: "estimator_list s \<noteq> []" by auto
  have "vote (y_predict_list s) (estimator_weight_list s) i =
          Inr (fsign (weighted_vote predict (estimator_list s) (estimator_weight_list s) (X ! i)))"
    if "i \<in> set [0..<N]" for i
  proof -
    from that len have "i < length X" by simp
    from vote_of_predictions [OF this ne] show ?thesis
      unfolding prediction_rows [OF run] .
  qed
  from collect_map_Inr [of "[0..<N]" "vote (y_predict_list s) (estimator_weight_list s)", OF this]
  show ?thesis unfolding ensemble_preds_def by blast
qed

section \<open>Finite and non-finite values in a run\<close>






section \<open>Concrete runs\<close>

lemmas round_eval =
  boost_round_def initial_state_def initial_sample_weight_def np_average_def np_sum_def
  incorrect_of_def estimator_weight_of_def boost_sample_weight_def boost_factor_def
  fsub_def float_of_bool_def fit_none_def fit_checked_def predict_feature_def Let_def

lemma regular_run_eq:
  "boost_rounds fit_none predict_feature [- 1, 1, 1, 1] [1, 1, 1, 1] 1 1
     (initial_state (length [1, 1, 1, 1 :: int])) = Inr regular_run"
  by (simp add: round_eval regular_run_def)

lemmas call_eval =
  Adaboost_scratch_def round_eval ensemble_preds_def vote_def column_def accuracy_def
  float_of_int_def upt_rec

lemma regular_call_eq:
  "Adaboost_scratch fit_none predict_feature [- 1, 1, 1, 1] [1, 1, 1, 1] 1 1 = Inr regular_call"
  by (simp add: call_eval regular_call_def)

lemma perfect_run_checked_eq:
  "boost_rounds fit_checked predict_feature [1, - 1] [1, - 1] 1 1
     (initial_state (length [1, - 1 :: int])) = Inr perfect_run"
  by (simp add: round_eval perfect_run_def)

lemma perfect_call_eq:
  "Adaboost_scratch fit_checked predict_feature [1, - 1] [1, - 1] 1 1 = Inr perfect_call"
  by (simp add: call_eval perfect_call_def)



section \<open>What a call returns\<close>

text \<open>
  Claim C1, amended. With one row of \<open>X\<close> per label: whenever a call returns, it
  returns a tuple of three arrays, the \<open>M\<close> fitted learners in round order, their \<open>M\<close>
  confidence weights in the same order, and the \<open>M + 1\<close> sample-weight snapshots.
  Learner \<open>m\<close> is the one fitted on snapshot \<open>m\<close>, weight \<open>m\<close> is computed from its
  weighted error on that snapshot, and snapshot \<open>m + 1\<close> is the update of snapshot \<open>m\<close>.
  The final training accuracy is printed; it is not a component of the returned tuple.
  A call does not return on every input: a round completes exactly when the learner is
  fitted without an exception and the sample weights do not sum to zero, and a call
  with at least one round returns whenever all its rounds complete.
\<close>

theorem trainer_returns_three_arrays:
  assumes len: "length X = length y"
  shows
   "(\<forall>r. Adaboost_scratch fit predict X y M lr = Inr r \<longrightarrow>
       (\<exists>estimators weights snapshots.
          returned r = [Estimator_array estimators, Float_array weights, Float_matrix snapshots] \<and>
          length estimators = M \<and> length weights = M \<and> length snapshots = Suc M \<and>
          snapshots ! 0 = initial_sample_weight (length y) \<and>
          (\<forall>m < M.
             fit X y (snapshots ! m) = Inr (estimators ! m) \<and>
             (\<exists>err. np_average (incorrect_of (map (predict (estimators ! m)) X) y) (snapshots ! m)
                      = Inr err \<and>
                    weights ! m = estimator_weight_of lr err) \<and>
             snapshots ! Suc m =
               boost_sample_weight (weights ! m)
                 (incorrect_of (map (predict (estimators ! m)) X) y) (snapshots ! m))) \<and>
       printed_accuracy r = accuracy (preds r) y (length y) \<and>
       Float_scalar (printed_accuracy r) \<notin> set (returned r)) \<and>
    (\<forall>s. 0 < M \<and> boost_rounds fit predict X y lr M (initial_state (length y)) = Inr s \<longrightarrow>
       (\<exists>r. Adaboost_scratch fit predict X y M lr = Inr r)) \<and>
    (\<forall>t. length (sample_weight t) = length y \<longrightarrow>
         ((\<exists>t'. boost_round fit predict X y lr t = Inr t') \<longleftrightarrow>
          (\<exists>est. fit X y (sample_weight t) = Inr est) \<and>
          \<not> feq (np_sum (sample_weight t)) (Fin 0)))"
    (is "(\<forall>r. ?C r \<longrightarrow> ?A r) \<and> (\<forall>s. ?R s \<longrightarrow> ?B) \<and> ?D")
proof -
  have A: "?A r" if call: "?C r" for r
  proof -
    from call obtain s where
      run: "boost_rounds fit predict X y lr M (initial_state (length y)) = Inr s"
      and ret: "returned r = [Estimator_array (estimator_list s),
                  Float_array (estimator_weight_list s), Float_matrix (sample_weight_list s)]"
      and acc: "printed_accuracy r = accuracy (preds r) y (length y)"
      by (rule Adaboost_scratch_InrD)
    note f = run_facts [OF run]
    have rounds: "fit X y (sample_weight_list s ! m) = Inr (estimator_list s ! m) \<and>
        (\<exists>err. np_average (incorrect_of (map (predict (estimator_list s ! m)) X) y)
                  (sample_weight_list s ! m) = Inr err \<and>
               estimator_weight_list s ! m = estimator_weight_of lr err) \<and>
        sample_weight_list s ! Suc m =
          boost_sample_weight (estimator_weight_list s ! m)
            (incorrect_of (map (predict (estimator_list s ! m)) X) y) (sample_weight_list s ! m)"
      if "m < M" for m
    proof -
      from f that have ok: "round_ok fit predict X y lr s m" by simp
      note d = round_okD [OF ok]
      show ?thesis using d(1) d(3) d(4) d(5) unfolding d(2) by blast
    qed
    have l: "length (estimator_list s) = M" "length (estimator_weight_list s) = M"
      "length (sample_weight_list s) = Suc M" using f by simp_all
    have notin: "Float_scalar (printed_accuracy r) \<notin> set (returned r)" unfolding ret by simp
    from ret l first_snapshot [OF run] rounds acc notin show ?thesis by blast
  qed
  have B: "?B" if r: "?R s" for s
  proof -
    from r have M: "0 < M"
      and run: "boost_rounds fit predict X y lr M (initial_state (length y)) = Inr s" by simp_all
    from ensemble_preds_returns [OF run M] len obtain ps where
      ps: "ensemble_preds (y_predict_list s) (estimator_weight_list s) (length y) = Inr ps" by auto
    show ?thesis by (simp add: Adaboost_scratch_def Let_def run ps)
  qed
  have D: "?D" by (intro allI impI) (rule boost_round_returns_iff)
  have A': "\<forall>r. ?C r \<longrightarrow> ?A r" by (intro allI impI) (rule A)
  have B': "\<forall>s. ?R s \<longrightarrow> ?B" by (intro allI impI) (rule B)
  show ?thesis by (rule conjI [OF A' conjI [OF B' D]])
qed

text \<open>
  Claim C1 as amended, on the call \<open>perfect_call\<close> and its only round.
\<close>

theorem trainer_returns_three_arrays_witness:
  "length [1, - 1 :: int] = length [1, - 1 :: int] \<and>
   Adaboost_scratch fit_checked predict_feature [1, - 1] [1, - 1] 1 1 = Inr perfect_call \<and>
   (\<exists>estimators weights snapshots.
      returned perfect_call = [Estimator_array estimators, Float_array weights, Float_matrix snapshots] \<and>
      length estimators = 1 \<and> length weights = 1 \<and> length snapshots = Suc 1 \<and>
      snapshots ! 0 = initial_sample_weight (length [1, - 1 :: int]) \<and>
      fit_checked [1, - 1] [1, - 1] (snapshots ! 0) = Inr (estimators ! 0) \<and>
      (\<exists>err. np_average (incorrect_of (map (predict_feature (estimators ! 0)) [1, - 1])
                 [1, - 1]) (snapshots ! 0) = Inr err \<and>
             weights ! 0 = estimator_weight_of 1 err) \<and>
      snapshots ! Suc 0 =
        boost_sample_weight (weights ! 0)
          (incorrect_of (map (predict_feature (estimators ! 0)) [1, - 1]) [1, - 1])
          (snapshots ! 0)) \<and>
   printed_accuracy perfect_call = accuracy (preds perfect_call) [1, - 1] (length [1, - 1 :: int]) \<and>
   Float_scalar (printed_accuracy perfect_call) \<notin> set (returned perfect_call) \<and>
   (0 :: nat) < 1 \<and>
   boost_rounds fit_checked predict_feature [1, - 1] [1, - 1] 1 1
     (initial_state (length [1, - 1 :: int])) = Inr perfect_run \<and>
   (\<exists>r. Adaboost_scratch fit_checked predict_feature [1, - 1] [1, - 1] 1 1 = Inr r) \<and>
   length (sample_weight (initial_state (length [1, - 1 :: int]) :: unit boost_state)) =
     length [1, - 1 :: int] \<and>
   (\<exists>est. fit_checked [1, - 1] [1, - 1]
            (sample_weight (initial_state (length [1, - 1 :: int]) :: unit boost_state)) = Inr est) \<and>
   \<not> feq (np_sum (sample_weight (initial_state (length [1, - 1 :: int]) :: unit boost_state))) (Fin 0) \<and>
   (\<exists>t'. boost_round fit_checked predict_feature [1, - 1] [1, - 1] 1
            (initial_state (length [1, - 1 :: int])) = Inr t')"
proof -
  let ?X = "[1, - 1 :: int]"
  let ?s0 = "initial_state (length [1, - 1 :: int]) :: unit boost_state"
  have h: "length ?X = length [1, - 1 :: int]" by simp
  have m: "(0 :: nat) < 1" by simp
  note t = trainer_returns_three_arrays
      [where fit = fit_checked and predict = predict_feature and M = 1 and lr = 1, OF h]
  note ta = t [THEN conjunct1, rule_format, OF perfect_call_eq]
  note tb = t [THEN conjunct2, THEN conjunct1, rule_format, OF conjI [OF m perfect_run_checked_eq]]
  have ls: "length (sample_weight ?s0) = length [1, - 1 :: int]"
    by (simp add: initial_state_def initial_sample_weight_def)
  note td = t [THEN conjunct2, THEN conjunct2, rule_format, OF ls]
  from ta obtain estimators weights snapshots where
    ret: "returned perfect_call = [Estimator_array estimators, Float_array weights, Float_matrix snapshots]"
    and l: "length estimators = 1" "length weights = 1" "length snapshots = Suc 1"
      "snapshots ! 0 = initial_sample_weight (length [1, - 1 :: int])"
    and rounds: "\<And>m. m < 1 \<Longrightarrow>
        fit_checked ?X [1, - 1] (snapshots ! m) = Inr (estimators ! m) \<and>
        (\<exists>err. np_average (incorrect_of (map (predict_feature (estimators ! m)) ?X)
                 [1, - 1]) (snapshots ! m) = Inr err \<and>
               weights ! m = estimator_weight_of 1 err) \<and>
        snapshots ! Suc m =
          boost_sample_weight (weights ! m)
            (incorrect_of (map (predict_feature (estimators ! m)) ?X) [1, - 1])
            (snapshots ! m)"
    by blast
  from ta have acc: "printed_accuracy perfect_call =
      accuracy (preds perfect_call) [1, - 1] (length [1, - 1 :: int])"
    and notin: "Float_scalar (printed_accuracy perfect_call) \<notin> set (returned perfect_call)"
    by blast+
  have r0: "fit_checked ?X [1, - 1] (snapshots ! 0) = Inr (estimators ! 0) \<and>
        (\<exists>err. np_average (incorrect_of (map (predict_feature (estimators ! 0)) ?X)
                 [1, - 1]) (snapshots ! 0) = Inr err \<and>
               weights ! 0 = estimator_weight_of 1 err) \<and>
        snapshots ! Suc 0 =
          boost_sample_weight (weights ! 0)
            (incorrect_of (map (predict_feature (estimators ! 0)) ?X) [1, - 1])
            (snapshots ! 0)"
    by (rule rounds) simp
  have e: "\<exists>est. fit_checked ?X [1, - 1] (sample_weight ?s0) = Inr est"
    by (simp add: fit_checked_def initial_state_def initial_sample_weight_def numeral_2_eq_2)
  have z: "\<not> feq (np_sum (sample_weight ?s0)) (Fin 0)"
    by (simp add: initial_state_def initial_sample_weight_def np_sum_def numeral_2_eq_2)
  from td e z have d: "\<exists>t'. boost_round fit_checked predict_feature ?X [1, - 1] 1 ?s0 = Inr t'"
    by blast
  have x: "\<exists>estimators weights snapshots.
      returned perfect_call = [Estimator_array estimators, Float_array weights, Float_matrix snapshots] \<and>
      length estimators = 1 \<and> length weights = 1 \<and> length snapshots = Suc 1 \<and>
      snapshots ! 0 = initial_sample_weight (length [1, - 1 :: int]) \<and>
      fit_checked [1, - 1] [1, - 1] (snapshots ! 0) = Inr (estimators ! 0) \<and>
      (\<exists>err. np_average (incorrect_of (map (predict_feature (estimators ! 0)) [1, - 1])
                 [1, - 1]) (snapshots ! 0) = Inr err \<and>
             weights ! 0 = estimator_weight_of 1 err) \<and>
      snapshots ! Suc 0 =
        boost_sample_weight (weights ! 0)
          (incorrect_of (map (predict_feature (estimators ! 0)) [1, - 1]) [1, - 1])
          (snapshots ! 0)"
    using ret l r0 by blast
  from h perfect_call_eq x acc notin m perfect_run_checked_eq tb ls e z d
  show ?thesis by (intro conjI)
qed

text \<open>
  Claim C1 as stated fails twice, on four examples that one threshold separates, so
  that the learner predicts every label. With one round the call returns the three
  arrays and prints the accuracy 1, which is no part of the returned tuple. With two
  rounds the call does not return: the first round has error rate 0 and leaves every
  sample weight \<open>nan\<close>, and fitting the second learner on these weights raises
  \<open>ValueError\<close>.
\<close>

theorem accuracy_printed_not_returned:
  "Adaboost_scratch fit_checked predict_feature [1, - 1, 1, - 1] [1, - 1, 1, - 1] 1 1 =
     Inr \<lparr> returned =
             [Estimator_array [()], Float_array [PInf],
              Float_matrix
                [[Fin (1 / 4), Fin (1 / 4), Fin (1 / 4), Fin (1 / 4)],
                 [NaN, NaN, NaN, NaN]]],
           printed_accuracy = Fin 1,
           preds = [Fin 1, Fin (- 1), Fin 1, Fin (- 1)] \<rparr> \<and>
   Adaboost_scratch fit_checked predict_feature [1, - 1, 1, - 1] [1, - 1, 1, - 1] 2 1 =
     Inl ValueError"
  by (simp add: call_eval numeral_2_eq_2)

section \<open>The sample-weight update of a round\<close>




section \<open>Rounds with error rate 0 or 1\<close>




section \<open>Error rate and confidence weight of a round\<close>

text \<open>
  Claim C5. A round whose learner is fitted and that starts from non-negative sample
  weights with a positive sum does not raise, and the weighted error rate it records is
  the sum of the weights of the examples that the fitted learner misclassifies divided
  by the sum of all weights, a number between 0 and 1. For a
  positive learning rate and an error rate strictly between 0 and 1, the confidence
  weight \<open>learning_rate * ln((1 - error) / error)\<close> is a finite number, strictly
  positive when the error is below one half and strictly negative when it is above.
\<close>

theorem error_rate_bounds_and_weight_sign:
  "(fit X y (sample_weight s) = Inr est \<and>
    list_all nonneg_fin (sample_weight s) \<and> fless (Fin 0) (np_sum (sample_weight s)) \<longrightarrow>
      (\<exists>s' e. boost_round fit predict X y lr s = Inr s' \<and>
               estimator_error_list s' = estimator_error_list s @ [Fin e] \<and>
               e = wsum (incorrect_of (map (predict est) X) y)
                     (sample_weight s) / sum_list (map the_real (sample_weight s)) \<and>
               0 \<le> e \<and> e \<le> 1)) \<and>
   (0 < lr \<and> 0 < e \<and> e < 1 \<longrightarrow>
      (e < 1/2 \<longrightarrow> (\<exists>a. estimator_weight_of lr (Fin e) = Fin a \<and> 0 < a)) \<and>
      (1/2 < e \<longrightarrow> (\<exists>a. estimator_weight_of lr (Fin e) = Fin a \<and> a < 0)))"
proof (intro conjI impI)
  assume a: "fit X y (sample_weight s) = Inr est \<and>
    list_all nonneg_fin (sample_weight s) \<and> fless (Fin 0) (np_sum (sample_weight s))"
  let ?inc = "incorrect_of (map (predict est) X) y"
  from a np_average_nonneg [of "sample_weight s" ?inc]
  show "\<exists>s' e. boost_round fit predict X y lr s = Inr s' \<and>
               estimator_error_list s' = estimator_error_list s @ [Fin e] \<and>
               e = wsum ?inc (sample_weight s) / sum_list (map the_real (sample_weight s)) \<and>
               0 \<le> e \<and> e \<le> 1"
    by (simp add: boost_round_def Let_def)
next
  assume a: "0 < lr \<and> 0 < e \<and> e < 1" and b: "e < 1/2"
  then show "\<exists>a. estimator_weight_of lr (Fin e) = Fin a \<and> 0 < a"
    using ln_ratio_pos [of e] by (simp add: estimator_weight_of_open)
next
  assume a: "0 < lr \<and> 0 < e \<and> e < 1" and b: "1/2 < e"
  then show "\<exists>a. estimator_weight_of lr (Fin e) = Fin a \<and> a < 0"
    using ln_ratio_neg [of e] by (simp add: estimator_weight_of_open mult_pos_neg)
qed

text \<open>
  Claim C5 on the first round of four examples with uniform weights, and on the error
  rates \<open>1/4\<close> and \<open>3/4\<close> at learning rate 1.
\<close>

theorem error_rate_bounds_and_weight_sign_witness:
  "fit_none [- 1, 1, 1, 1] [1, 1, 1, 1] (sample_weight (initial_state 4 :: unit boost_state)) = Inr () \<and>
   list_all nonneg_fin (sample_weight (initial_state 4 :: unit boost_state)) \<and>
   fless (Fin 0) (np_sum (sample_weight (initial_state 4 :: unit boost_state))) \<and>
   (\<exists>s' e. boost_round fit_none predict_feature [- 1, 1, 1, 1] [1, 1, 1, 1] 1
              (initial_state 4) = Inr s' \<and>
            estimator_error_list s' = [Fin e] \<and> 0 \<le> e \<and> e \<le> 1) \<and>
   (0 :: real) < 1 \<and> (0 :: real) < 1 / 4 \<and> (1 / 4 :: real) < 1 \<and> (1 / 4 :: real) < 1 / 2 \<and>
   (\<exists>a. estimator_weight_of 1 (Fin (1 / 4)) = Fin a \<and> 0 < a) \<and>
   (0 :: real) < 3 / 4 \<and> (3 / 4 :: real) < 1 \<and> (1 / 2 :: real) < 3 / 4 \<and>
   (\<exists>a. estimator_weight_of 1 (Fin (3 / 4)) = Fin a \<and> a < 0)"
proof -
  let ?s = "initial_state 4 :: unit boost_state"
  have h: "fit_none [- 1, 1, 1, 1] [1, 1, 1, 1] (sample_weight ?s) = Inr ()"
    "list_all nonneg_fin (sample_weight ?s)" "fless (Fin 0) (np_sum (sample_weight ?s))"
    by (simp_all add: fit_none_def initial_state_def initial_sample_weight_def np_sum_def
          numeral_eq_Suc)
  have r: "(0 :: real) < 1" "(0 :: real) < 1 / 4" "(1 / 4 :: real) < 1" "(1 / 4 :: real) < 1 / 2"
    "(0 :: real) < 3 / 4" "(3 / 4 :: real) < 1" "(1 / 2 :: real) < 3 / 4" by simp_all
  note t1 = error_rate_bounds_and_weight_sign
      [where s = ?s and fit = fit_none and predict = predict_feature and X = "[- 1, 1, 1, 1]"
         and y = "[1, 1, 1, 1]" and est = "()" and lr = 1 and e = "1 / 4"]
  note t2 = error_rate_bounds_and_weight_sign
      [where s = ?s and fit = fit_none and predict = predict_feature and X = "[- 1, 1, 1, 1]"
         and y = "[1, 1, 1, 1]" and est = "()" and lr = 1 and e = "3 / 4"]
  from t1 h have "\<exists>s' e. boost_round fit_none predict_feature [- 1, 1, 1, 1] [1, 1, 1, 1] 1 ?s = Inr s' \<and>
      estimator_error_list s' = estimator_error_list ?s @ [Fin e] \<and> 0 \<le> e \<and> e \<le> 1"
    by blast
  then have a: "\<exists>s' e. boost_round fit_none predict_feature [- 1, 1, 1, 1] [1, 1, 1, 1] 1 ?s = Inr s' \<and>
      estimator_error_list s' = [Fin e] \<and> 0 \<le> e \<and> e \<le> 1"
    by (simp add: initial_state_def)
  from t1 r have b: "\<exists>a. estimator_weight_of 1 (Fin (1 / 4)) = Fin a \<and> 0 < a" by blast
  from t2 r have c: "\<exists>a. estimator_weight_of 1 (Fin (3 / 4)) = Fin a \<and> a < 0" by blast
  from h a r b c show ?thesis by (intro conjI)
qed

section \<open>The combined prediction\<close>

text \<open>
  Claim C6. When a call returns, the combined prediction for each training point is the
  sign of the sum, over the rounds, of the round's confidence weight times the label
  that round's fitted learner predicts for the point. The estimators and weights in the
  formula are the first two arrays the call returns. The notebook computes the
  combined prediction for the training points only.
\<close>

theorem ensemble_prediction_is_weighted_vote:
  assumes len: "length X = length y"
    and call: "Adaboost_scratch fit predict X y M lr = Inr r"
  shows "\<exists>estimators weights snapshots.
           returned r = [Estimator_array estimators, Float_array weights, Float_matrix snapshots] \<and>
           length estimators = M \<and> length weights = M \<and>
           length (preds r) = length y \<and>
           (\<forall>i < length y. preds r ! i = fsign (weighted_vote predict estimators weights (X ! i)))"
proof -
  from call obtain s where
    run: "boost_rounds fit predict X y lr M (initial_state (length y)) = Inr s"
    and ps: "ensemble_preds (y_predict_list s) (estimator_weight_list s) (length y) = Inr (preds r)"
    and ret: "returned r = [Estimator_array (estimator_list s), Float_array (estimator_weight_list s),
                       Float_matrix (sample_weight_list s)]"
    by (rule Adaboost_scratch_InrD)
  note rows = prediction_rows [OF run]
  from run_facts [OF run] have lens: "length (estimator_list s) = M" "length (estimator_weight_list s) = M"
    by simp_all
  from collect_map_InrD [OF ps [unfolded ensemble_preds_def]]
  have lp: "length (preds r) = length y"
    and v: "\<And>i. i < length y \<Longrightarrow>
           vote (y_predict_list s) (estimator_weight_list s) i = Inr (preds r ! i)"
    by simp_all
  have pt: "preds r ! i = fsign (weighted_vote predict (estimator_list s) (estimator_weight_list s) (X ! i))"
    if i: "i < length y" for i
  proof (cases "estimator_list s = []")
    case True
    with rows v [OF i] show ?thesis by (simp add: vote_def column_empty)
  next
    case False
    from i len have "i < length X" by simp
    from vote_of_predictions [OF this False, of predict "estimator_weight_list s"] v [OF i] rows
    show ?thesis by simp
  qed
  show ?thesis using ret lens lp pt by blast
qed

text \<open>
  Claim C6 on the call \<open>regular_call\<close>, for the first two points.
\<close>

theorem ensemble_prediction_is_weighted_vote_witness:
  "length [- 1, 1, 1, 1 :: int] = length [1, 1, 1, 1 :: int] \<and>
   Adaboost_scratch fit_none predict_feature [- 1, 1, 1, 1] [1, 1, 1, 1] 1 1 = Inr regular_call \<and>
   (\<exists>estimators weights snapshots.
      returned regular_call =
        [Estimator_array estimators, Float_array weights, Float_matrix snapshots] \<and>
      length estimators = 1 \<and> length weights = 1 \<and>
      length (preds regular_call) = length [1, 1, 1, 1 :: int] \<and>
      preds regular_call ! 0 =
        fsign (weighted_vote predict_feature estimators weights ([- 1, 1, 1, 1] ! 0)) \<and>
      preds regular_call ! 1 =
        fsign (weighted_vote predict_feature estimators weights ([- 1, 1, 1, 1] ! 1)))"
proof -
  have h: "length [- 1, 1, 1, 1 :: int] = length [1, 1, 1, 1 :: int]" by simp
  from ensemble_prediction_is_weighted_vote [OF h regular_call_eq]
  obtain estimators weights snapshots where
    a: "returned regular_call =
          [Estimator_array estimators, Float_array weights, Float_matrix snapshots]"
      "length estimators = 1" "length weights = 1"
      "length (preds regular_call) = length [1, 1, 1, 1 :: int]"
    and b: "\<And>i. i < length [1, 1, 1, 1 :: int] \<Longrightarrow> preds regular_call ! i =
        fsign (weighted_vote predict_feature estimators weights ([- 1, 1, 1, 1] ! i))"
    by blast
  have b0: "preds regular_call ! 0 =
        fsign (weighted_vote predict_feature estimators weights ([- 1, 1, 1, 1] ! 0))"
    by (rule b) simp
  have b1: "preds regular_call ! 1 =
        fsign (weighted_vote predict_feature estimators weights ([- 1, 1, 1, 1] ! 1))"
    by (rule b) simp
  from h regular_call_eq a b0 b1 show ?thesis by blast
qed

section \<open>Length and alignment of the sample weights\<close>

text \<open>
  Claim C8. In a call on \<open>N\<close> examples (one row of \<open>X\<close> per label) whose \<open>M\<close>
  rounds complete, the trainer holds \<open>M + 1\<close> sample-weight snapshots: the vector
  before the first round and the vector after each round's update. Every one of them
  has length \<open>N\<close>. Entry \<open>i\<close> of the vector after a round is entry \<open>i\<close> of the vector
  before it times a factor computed from example \<open>i\<close> alone, so the positions stay
  aligned with the examples and only the values change. A call that raises in a later
  round has run its earlier rounds as a shorter call does, so the same holds for them.
\<close>

theorem sample_weight_length_invariant:
  assumes len: "length X = length y"
    and run: "boost_rounds fit predict X y lr M (initial_state (length y)) = Inr s"
  shows "length (sample_weight_list s) = Suc M \<and>
         (\<forall>k \<le> M. length (sample_weight_list s ! k) = length y) \<and>
         (\<forall>m < M. \<forall>i < length y.
            sample_weight_list s ! Suc m ! i =
              fmul (sample_weight_list s ! m ! i)
                (boost_factor (estimator_weight_list s ! m)
                   (predict (estimator_list s ! m) (X ! i) \<noteq> y ! i)
                   (sample_weight_list s ! m ! i)))"
proof (intro conjI allI impI)
  show "length (sample_weight_list s) = Suc M" using run_facts [OF run] by simp
next
  fix k assume "k \<le> M"
  then show "length (sample_weight_list s ! k) = length y"
    using snapshot_lengths [OF len run] by simp
next
  fix m i assume m: "m < M" and i: "i < length y"
  from run_facts [OF run] m have ok: "round_ok fit predict X y lr s m" by simp
  have lm: "length (sample_weight_list s ! m) = length y"
    using snapshot_lengths [OF len run] m by simp
  from ok have
    upd: "sample_weight_list s ! Suc m = boost_sample_weight (estimator_weight_list s ! m)
          (incorrect_of (y_predict_list s ! m) y) (sample_weight_list s ! m)"
    and yp: "y_predict_list s ! m = map (predict (estimator_list s ! m)) X"
    by (simp_all add: round_ok_def)
  show "sample_weight_list s ! Suc m ! i =
          fmul (sample_weight_list s ! m ! i)
            (boost_factor (estimator_weight_list s ! m)
               (predict (estimator_list s ! m) (X ! i) \<noteq> y ! i)
               (sample_weight_list s ! m ! i))"
    unfolding upd yp using i len lm
    by (simp add: nth_boost_sample_weight length_incorrect_of nth_incorrect_of)
qed

text \<open>
  Claim C8 on the run \<open>regular_run\<close>.
\<close>

theorem sample_weight_length_invariant_witness:
  "length [- 1, 1, 1, 1 :: int] = length [1, 1, 1, 1 :: int] \<and>
   boost_rounds fit_none predict_feature [- 1, 1, 1, 1] [1, 1, 1, 1] 1 1
     (initial_state (length [1, 1, 1, 1 :: int])) = Inr regular_run \<and>
   length (sample_weight_list regular_run) = Suc 1 \<and>
   length (sample_weight_list regular_run ! 0) = length [1, 1, 1, 1 :: int] \<and>
   length (sample_weight_list regular_run ! 1) = length [1, 1, 1, 1 :: int] \<and>
   sample_weight_list regular_run ! Suc 0 ! 0 =
     fmul (sample_weight_list regular_run ! 0 ! 0)
       (boost_factor (estimator_weight_list regular_run ! 0)
          (predict_feature (estimator_list regular_run ! 0) ([- 1, 1, 1, 1] ! 0)
             \<noteq> [1, 1, 1, 1] ! 0)
          (sample_weight_list regular_run ! 0 ! 0))"
proof -
  have h: "length [- 1, 1, 1, 1 :: int] = length [1, 1, 1, 1 :: int]" by simp
  note t = sample_weight_length_invariant [OF h regular_run_eq]
  have a: "length (sample_weight_list regular_run) = Suc 1" using t by blast
  have b: "length (sample_weight_list regular_run ! k) = length [1, 1, 1, 1 :: int]"
    if "k \<le> 1" for k using t that by blast
  have c: "sample_weight_list regular_run ! Suc m ! i =
     fmul (sample_weight_list regular_run ! m ! i)
       (boost_factor (estimator_weight_list regular_run ! m)
          (predict_feature (estimator_list regular_run ! m) ([- 1, 1, 1, 1] ! i)
             \<noteq> [1, 1, 1, 1] ! i)
          (sample_weight_list regular_run ! m ! i))"
    if "m < 1" "i < length [1, 1, 1, 1 :: int]" for m i using t that by blast
  have b0: "length (sample_weight_list regular_run ! 0) = length [1, 1, 1, 1 :: int]"
    by (rule b) simp
  have b1: "length (sample_weight_list regular_run ! 1) = length [1, 1, 1, 1 :: int]"
    by (rule b) simp
  have c0: "sample_weight_list regular_run ! Suc 0 ! 0 =
     fmul (sample_weight_list regular_run ! 0 ! 0)
       (boost_factor (estimator_weight_list regular_run ! 0)
          (predict_feature (estimator_list regular_run ! 0) ([- 1, 1, 1, 1] ! 0)
             \<noteq> [1, 1, 1, 1] ! 0)
          (sample_weight_list regular_run ! 0 ! 0))"
    by (rule c) simp_all
  from h regular_run_eq a b0 b1 c0 show ?thesis by (intro conjI)
qed

section \<open>A call with no rounds\<close>

text \<open>
  Claim C9, amended. Called with \<open>M = 0\<close> the trainer runs zero rounds: the estimator
  list and the confidence-weight list are empty and the sample-weight list holds only
  the initial uniform vector. With at least one example the call then raises
  \<open>IndexError\<close>: the stacked prediction array of zero rounds is one-dimensional and
  the vote indexes it by column. Nothing is printed or returned. (With no example at
  all no vote is computed; the call returns the empty arrays and prints \<open>nan\<close>.)
\<close>

theorem zero_rounds_call:
  "boost_rounds fit predict X y lr 0 (initial_state (length y)) = Inr (initial_state (length y)) \<and>
   estimator_list (initial_state (length y) :: 'e boost_state) = [] \<and>
   estimator_weight_list (initial_state (length y) :: 'e boost_state) = [] \<and>
   sample_weight_list (initial_state (length y) :: 'e boost_state) =
     [replicate (length y) (fdiv (Fin 1) (Fin (real (length y))))] \<and>
   (0 < length y \<longrightarrow> Adaboost_scratch fit predict X y 0 lr = Inl IndexError) \<and>
   (length y = 0 \<longrightarrow>
      Adaboost_scratch fit predict X y 0 lr =
        Inr \<lparr> returned = [Estimator_array [], Float_array [], Float_matrix [[]]],
              printed_accuracy = NaN, preds = [] \<rparr>)"
proof (intro conjI impI)
  assume "0 < length y"
  then show "Adaboost_scratch fit predict X y 0 lr = Inl IndexError"
    by (simp add: Adaboost_scratch_def Let_def initial_state_def ensemble_preds_empty)
next
  assume "length y = 0"
  then show "Adaboost_scratch fit predict X y 0 lr =
        Inr \<lparr> returned = [Estimator_array [], Float_array [], Float_matrix [[]]],
              printed_accuracy = NaN, preds = [] \<rparr>"
    by (simp add: Adaboost_scratch_def Let_def initial_state_def initial_sample_weight_def
        ensemble_preds_def accuracy_def)
qed (simp_all add: initial_state_def initial_sample_weight_def)

text \<open>
  Claim C9 as amended, on two examples and on none.
\<close>

theorem zero_rounds_call_witness:
  "0 < length [1, - 1 :: int] \<and>
   Adaboost_scratch fit_none predict_feature [1, - 1] [1, - 1] 0 1 = Inl IndexError \<and>
   length ([] :: int list) = 0 \<and>
   Adaboost_scratch fit_none predict_feature [] [] 0 1 =
     Inr \<lparr> returned = [Estimator_array [], Float_array [], Float_matrix [[]]],
           printed_accuracy = NaN, preds = [] \<rparr>"
  using zero_rounds_call [of fit_none predict_feature "[1, - 1]" "[1, - 1]" 1]
    zero_rounds_call [of fit_none predict_feature "[]" "[]" 1]
  by auto

text \<open>
  Claim C9 as stated fails: on four examples and \<open>M = 0\<close> the call does not report
  accuracy 0, it raises \<open>IndexError\<close>.
\<close>

theorem zero_rounds_raise:
  "Adaboost_scratch fit_none predict_feature [- 1, 1, 1, 1] [1, 1, 1, 1] 0 1 = Inl IndexError"
  by (simp add: call_eval)

end
